theory Spec2Isabelle
  imports Main
begin

section \<open>The webpack configuration module as a function of its host\<close>

text \<open>
  \<^verbatim>\<open>webpack.config.js\<close> is evaluated once by Node and exports one configuration object.
  Everything it reads from outside its own text is collected in the record \<open>host\<close>:
  the environment variable \<^verbatim>\<open>process.env.NODE_ENV\<close> (a string, or \<^verbatim>\<open>undefined\<close> when the
  variable is unset, modelled as \<open>None\<close>), the directory \<^verbatim>\<open>__dirname\<close> of the file, and
  Node's \<^verbatim>\<open>path.resolve\<close>, which is library code and therefore a parameter.
  Every top-level closure of the file becomes a function of the host.
\<close>

record host =
  NODE_ENV :: "string option"
  dirname :: string
  path_resolve :: "string \<Rightarrow> string \<Rightarrow> string"

text \<open>\<^verbatim>\<open>const isDev = process.env.NODE_ENV === 'development'; const isProd = !isDev;\<close>\<close>

definition isDev :: "host \<Rightarrow> bool" where
  "isDev h = (NODE_ENV h = Some ''development'')"

definition isProd :: "host \<Rightarrow> bool" where
  "isProd h = (\<not> isDev h)"

text \<open>
  JavaScript truthiness of an optional string argument, as tested by \<^verbatim>\<open>if (extra)\<close> and
  \<^verbatim>\<open>if (preset)\<close>: \<^verbatim>\<open>undefined\<close> and the empty string are falsy. \<open>truthy v\<close> is
  \<open>Some s\<close> exactly when the test succeeds on the string \<open>s\<close>.
\<close>

fun truthy :: "string option \<Rightarrow> string option" where
  "truthy None = None"
| "truthy (Some s) = (if s = [] then None else Some s)"

subsection \<open>Plugin instances\<close>

text \<open>
  The plugins are third-party classes; an instance is represented by its class and the
  option object handed to the constructor.
\<close>

record minify_options =
  collapseWhitespace :: bool

record html_options =
  template :: string
  minify :: minify_options

record copy_pattern =
  copy_from :: string
  copy_to :: string

datatype plugin =
    HTMLWebpackPlugin html_options
  | CleanWebpackPlugin
  | CopyWebpackPlugin "copy_pattern list"
  | MiniCssExtractPlugin string
  | OptimizeCssAssetWebpackPlugin
  | TerserWebpackPlugin
  | BundleAnalyzerPlugin

datatype plugin_class =
    HTML_generation
  | Output_cleaning
  | Static_copying
  | Style_extraction
  | CSS_minimizer
  | JS_minimizer
  | Bundle_visualizer

fun class_of :: "plugin \<Rightarrow> plugin_class" where
  "class_of (HTMLWebpackPlugin _) = HTML_generation"
| "class_of CleanWebpackPlugin = Output_cleaning"
| "class_of (CopyWebpackPlugin _) = Static_copying"
| "class_of (MiniCssExtractPlugin _) = Style_extraction"
| "class_of OptimizeCssAssetWebpackPlugin = CSS_minimizer"
| "class_of TerserWebpackPlugin = JS_minimizer"
| "class_of BundleAnalyzerPlugin = Bundle_visualizer"

subsection \<open>\<^verbatim>\<open>optimization\<close>\<close>

text \<open>
  The object starts with \<^verbatim>\<open>splitChunks\<close> only; the field \<^verbatim>\<open>minimizer\<close> is assigned under
  \<^verbatim>\<open>isProd\<close> and is otherwise absent (\<open>None\<close>).
\<close>

record split_chunks =
  chunks :: string

record optimization_config =
  splitChunks :: split_chunks
  minimizer :: "plugin list option"

definition optimization :: "host \<Rightarrow> optimization_config" where
  "optimization h =
     (let config = \<lparr>splitChunks = \<lparr>chunks = ''all''\<rparr>, minimizer = None\<rparr>
      in if isProd h
         then config\<lparr>minimizer := Some [OptimizeCssAssetWebpackPlugin, TerserWebpackPlugin]\<rparr>
         else config)"

subsection \<open>\<^verbatim>\<open>filename\<close>\<close>

definition filename :: "host \<Rightarrow> string \<Rightarrow> string" where
  "filename h ext = (if isDev h then ''[name].'' @ ext else ''[name].[hash].'' @ ext)"

subsection \<open>Loader chains\<close>

text \<open>
  An element of a loader chain is either a bare loader name or an object with a
  \<^verbatim>\<open>loader\<close> and its \<^verbatim>\<open>options\<close>. \<^verbatim>\<open>MiniCssExtractPlugin.loader\<close> is a constant of the
  imported package and is kept symbolic.
\<close>

record extract_options =
  hmr :: bool
  reloadAll :: bool

record babel_opts =
  babel_presets :: "string list"
  babel_plugins :: "string list"

datatype loader_ref = MiniCssExtractPlugin_loader | Named string

datatype loader_options = ExtractOptions extract_options | BabelOptions babel_opts

datatype loader = LoaderName string | LoaderObject loader_ref loader_options

definition cssLoaders :: "host \<Rightarrow> string option \<Rightarrow> loader list" where
  "cssLoaders h extra =
     (let loaders =
        [LoaderObject MiniCssExtractPlugin_loader
           (ExtractOptions \<lparr>hmr = isDev h, reloadAll = True\<rparr>),
         LoaderName ''css-loader'']
      in case truthy extra of
           Some e \<Rightarrow> loaders @ [LoaderName e]
         | None \<Rightarrow> loaders)"

definition babelOptions :: "host \<Rightarrow> string option \<Rightarrow> babel_opts" where
  "babelOptions h preset =
     (let opts = \<lparr>babel_presets = [''@babel/preset-env''],
                  babel_plugins = [''@babel/plugin-proposal-class-properties'']\<rparr>
      in case truthy preset of
           Some p \<Rightarrow> opts\<lparr>babel_presets := babel_presets opts @ [p]\<rparr>
         | None \<Rightarrow> opts)"

definition jsLoaders :: "host \<Rightarrow> loader list" where
  "jsLoaders h =
     (let loaders = [LoaderObject (Named ''babel-loader'') (BabelOptions (babelOptions h None))]
      in if isDev h then loaders @ [LoaderName ''eslint-loader''] else loaders)"

subsection \<open>\<^verbatim>\<open>plugins\<close>\<close>

definition plugins :: "host \<Rightarrow> plugin list" where
  "plugins h =
     (let base =
        [HTMLWebpackPlugin
           \<lparr>template = ''./index.html'', minify = \<lparr>collapseWhitespace = isProd h\<rparr>\<rparr>,
         CleanWebpackPlugin,
         CopyWebpackPlugin
           [\<lparr>copy_from = path_resolve h (dirname h) ''src/favicon.ico'',
             copy_to = path_resolve h (dirname h) ''dist''\<rparr>],
         MiniCssExtractPlugin (filename h ''css'')]
      in if isProd h then base @ [BundleAnalyzerPlugin] else base)"

subsection \<open>The exported configuration\<close>

text \<open>
  Regular-expression literals are kept as syntax trees: \<open>Lit\<close> is a run of literal
  characters (an escaped dot is the character itself), \<open>Cls\<close> a character class,
  \<open>Alt\<close> a parenthesised alternation, \<open>Eol\<close> the anchor \<^verbatim>\<open>$\<close>, and \<open>Cat\<close> their
  concatenation.
\<close>

datatype regex = Lit string | Cls string | Alt "regex list" | Eol | Cat "regex list"

text \<open>
  A value of the \<^verbatim>\<open>entry\<close> object is written either as one string or as an array of
  strings; the two shapes are kept apart.
\<close>

datatype entry_value = EntryFile string | EntryFiles "string list"

fun is_file_list :: "entry_value \<Rightarrow> bool" where
  "is_file_list (EntryFiles _) = True"
| "is_file_list (EntryFile _) = False"

record output_config =
  out_filename :: string
  out_path :: string

record resolve_config =
  extensions :: "string list"
  aliases :: "(string \<times> string) list"

record dev_server =
  port :: nat
  hot :: bool

text \<open>
  A rule names its loaders either under \<^verbatim>\<open>use\<close> (a chain) or under \<^verbatim>\<open>loader\<close> (one
  loader object); a field the rule does not have is \<open>None\<close>.
\<close>

record rule =
  rule_test :: regex
  rule_exclude :: "regex option"
  rule_use :: "loader list option"
  rule_loader :: "loader option"

record module_config =
  rules :: "rule list"

record config =
  cfg_context :: string
  cfg_mode :: string
  cfg_entry :: "(string \<times> entry_value) list"
  cfg_output :: output_config
  cfg_resolve :: resolve_config
  cfg_optimization :: optimization_config
  cfg_devServer :: dev_server
  cfg_devtool :: string
  cfg_plugins :: "plugin list"
  cfg_module :: module_config

text \<open>The object \<^verbatim>\<open>{test: t, use: ls}\<close>, a rule with these two fields only.\<close>

definition use_rule :: "regex \<Rightarrow> loader list \<Rightarrow> rule" where
  "use_rule t ls =
     \<lparr>rule_test = t, rule_exclude = None, rule_use = Some ls, rule_loader = None\<rparr>"

definition module_exports :: "host \<Rightarrow> config" where
  "module_exports h =
     \<lparr>cfg_context = path_resolve h (dirname h) ''src'',
      cfg_mode = ''development'',
      cfg_entry =
        [(''main'', EntryFiles [''@babel/polyfill'', ''./index.jsx'']),
         (''analytics'', EntryFile ''./analytics.ts'')],
      cfg_output =
        \<lparr>out_filename = filename h ''js'',
         out_path = path_resolve h (dirname h) ''dist''\<rparr>,
      cfg_resolve =
        \<lparr>extensions = [''.js'', ''.json'', ''.png''],
         aliases =
           [(''@models'', path_resolve h (dirname h) ''src/models''),
            (''@'', path_resolve h (dirname h) ''src'')]\<rparr>,
      cfg_optimization = optimization h,
      cfg_devServer = \<lparr>port = 4200, hot = isDev h\<rparr>,
      cfg_devtool = (if isDev h then ''source-map'' else []),
      cfg_plugins = plugins h,
      cfg_module =
        \<lparr>rules =
           [use_rule (Cat [Lit ''.css'', Eol]) (cssLoaders h None),
            use_rule (Cat [Lit ''.less'', Eol]) (cssLoaders h (Some ''less-loader'')),
            use_rule (Cat [Lit ''.s'', Cls ''ac'', Lit ''ss'', Eol])
              (cssLoaders h (Some ''sass-loader'')),
            use_rule
              (Cat [Lit ''.'', Alt [Lit ''png'', Lit ''jpg'', Lit ''svg'', Lit ''gif''], Eol])
              [LoaderName ''file-loader''],
            use_rule
              (Cat [Lit ''.'', Alt [Lit ''ttf'', Lit ''woff'', Lit ''woff2'', Lit ''eot''], Eol])
              [LoaderName ''file-loader''],
            use_rule (Cat [Lit ''.xml'', Eol]) [LoaderName ''xml-loader''],
            use_rule (Cat [Lit ''.csv'', Eol]) [LoaderName ''csv-loader''],
            \<lparr>rule_test = Cat [Lit ''.js'', Eol],
             rule_exclude = Some (Lit ''node_modules''),
             rule_use = Some (jsLoaders h),
             rule_loader = None\<rparr>,
            \<lparr>rule_test = Cat [Lit ''.ts'', Eol],
             rule_exclude = Some (Lit ''node_modules''),
             rule_use = None,
             rule_loader =
               Some (LoaderObject (Named ''babel-loader'')
                 (BabelOptions (babelOptions h (Some ''@babel/preset-typescript''))))\<rparr>,
            \<lparr>rule_test = Cat [Lit ''.jsx'', Eol],
             rule_exclude = Some (Lit ''node_modules''),
             rule_use = None,
             rule_loader =
               Some (LoaderObject (Named ''babel-loader'')
                 (BabelOptions (babelOptions h (Some ''@babel/preset-react''))))\<rparr>]\<rparr>\<rparr>"

text \<open>The rule of a given \<^verbatim>\<open>test\<close> pattern, if the configuration has one.\<close>

definition rule_for :: "regex \<Rightarrow> config \<Rightarrow> rule option" where
  "rule_for t c = find (\<lambda>r. rule_test r = t) (rules (cfg_module c))"

text \<open>\<^verbatim>\<open>String.prototype.includes\<close>: does the second string occur in the first?\<close>

fun starts_with :: "string \<Rightarrow> string \<Rightarrow> bool" where
  "starts_with _ [] = True"
| "starts_with [] (_ # _) = False"
| "starts_with (c # cs) (d # ds) = (c = d \<and> starts_with cs ds)"

fun str_includes :: "string \<Rightarrow> string \<Rightarrow> bool" where
  "str_includes [] n = (n = [])"
| "str_includes (c # cs) n = (starts_with (c # cs) n \<or> str_includes cs n)"

text \<open>
  Sample hosts for concrete evaluation: the environment value and the directory are
  free, and \<^verbatim>\<open>path.resolve\<close> is taken to join its two arguments with a slash.
\<close>

definition join_path :: "string \<Rightarrow> string \<Rightarrow> string" where
  "join_path d p = d @ ''/'' @ p"

definition host_of :: "string option \<Rightarrow> string \<Rightarrow> host" where
  "host_of env d = \<lparr>NODE_ENV = env, dirname = d, path_resolve = join_path\<rparr>"

section \<open>Shared lemmas\<close>

text \<open>
  The sample hosts evaluate as expected, and a helper that reads the host reads nothing
  of it but the flag \<open>isDev\<close>.
\<close>

lemma isDev_host_of: "isDev (host_of env d) = (env = Some ''development'')"
  by (simp add: isDev_def host_of_def)

lemma isProd_host_of: "isProd (host_of env d) = (env \<noteq> Some ''development'')"
  by (simp add: isProd_def isDev_host_of)

lemma hash_after_name: "str_includes (''[name].[hash].'' @ ext) ''[hash]''"
  by simp

lemma hash_only_from_ext:
  "str_includes (''[name].'' @ ext) ''[hash]'' = str_includes ext ''[hash]''"
  by simp

lemma helpers_flag_only:
  assumes "isDev h1 = isDev h2"
  shows "filename h1 ext = filename h2 ext"
    and "cssLoaders h1 extra = cssLoaders h2 extra"
    and "jsLoaders h1 = jsLoaders h2"
    and "optimization h1 = optimization h2"
    and "babelOptions h1 preset = babelOptions h2 preset"
  using assms
  by (simp_all add: filename_def cssLoaders_def jsLoaders_def optimization_def
      babelOptions_def isProd_def)

lemma plugins_flag_only:
  assumes "isDev h1 = isDev h2"
    and "dirname h1 = dirname h2"
    and "path_resolve h1 = path_resolve h2"
  shows "plugins h1 = plugins h2"
  using assms by (simp add: plugins_def isProd_def filename_def)

lemma exports_flag_only:
  assumes "isDev h1 = isDev h2"
    and "dirname h1 = dirname h2"
    and "path_resolve h1 = path_resolve h2"
  shows "module_exports h1 = module_exports h2"
  unfolding module_exports_def
  using assms helpers_flag_only [OF assms(1)] plugins_flag_only [OF assms]
  by simp

lemma plugins_unfolded:
  "plugins h =
     [HTMLWebpackPlugin
        \<lparr>template = ''./index.html'', minify = \<lparr>collapseWhitespace = isProd h\<rparr>\<rparr>,
      CleanWebpackPlugin,
      CopyWebpackPlugin
        [\<lparr>copy_from = path_resolve h (dirname h) ''src/favicon.ico'',
          copy_to = path_resolve h (dirname h) ''dist''\<rparr>],
      MiniCssExtractPlugin (filename h ''css'')]
     @ (if isProd h then [BundleAnalyzerPlugin] else [])"
  by (simp add: plugins_def Let_def)

lemma optimization_unfolded:
  "optimization h =
     \<lparr>splitChunks = \<lparr>chunks = ''all''\<rparr>,
      minimizer =
        (if isProd h then Some [OptimizeCssAssetWebpackPlugin, TerserWebpackPlugin]
         else None)\<rparr>"
  by (simp add: optimization_def Let_def)

lemma babelOptions_unfolded:
  "babelOptions h preset =
     \<lparr>babel_presets =
        ''@babel/preset-env'' # (case truthy preset of Some p \<Rightarrow> [p] | None \<Rightarrow> []),
      babel_plugins = [''@babel/plugin-proposal-class-properties'']\<rparr>"
  by (cases "truthy preset") (simp_all add: babelOptions_def Let_def)

section \<open>The claims\<close>

text \<open>
  C1. The filename template has the hash placeholder in production and not in
  development: \<open>filename ext\<close> is \<^verbatim>\<open>[name].[hash].\<close> followed by \<open>ext\<close> when \<open>isProd\<close>
  holds and \<^verbatim>\<open>[name].\<close> followed by \<open>ext\<close> when \<open>isDev\<close> holds. In production the
  placeholder occurs in the template whatever \<open>ext\<close> is; in development the template has
  it only if \<open>ext\<close> itself brings it, which neither \<^verbatim>\<open>js\<close> nor \<^verbatim>\<open>css\<close>, the two
  extensions the configuration passes, does.
\<close>

theorem filename_template:
  "(isProd h \<longrightarrow>
      filename h ext = ''[name].[hash].'' @ ext
      \<and> str_includes (filename h ext) ''[hash]'')
   \<and> (isDev h \<longrightarrow>
      filename h ext = ''[name].'' @ ext
      \<and> str_includes (filename h ext) ''[hash]'' = str_includes ext ''[hash]''
      \<and> \<not> str_includes (filename h ''js'') ''[hash]''
      \<and> \<not> str_includes (filename h ''css'') ''[hash]'')"
  by (simp add: filename_def isProd_def)

theorem filename_template_witness:
  "isProd (host_of (Some ''production'') ''/app'')
   \<and> filename (host_of (Some ''production'') ''/app'') ''js'' = ''[name].[hash].js''
   \<and> str_includes (filename (host_of (Some ''production'') ''/app'') ''js'') ''[hash]''
   \<and> isDev (host_of (Some ''development'') ''/app'')
   \<and> filename (host_of (Some ''development'') ''/app'') ''js'' = ''[name].js''
   \<and> \<not> str_includes (filename (host_of (Some ''development'') ''/app'') ''js'') ''[hash]''"
  using filename_template [of "host_of (Some ''production'') ''/app''" "''js''"]
    filename_template [of "host_of (Some ''development'') ''/app''" "''js''"]
  by (simp add: isProd_host_of isDev_host_of)

text \<open>
  C2. In production \<open>optimization\<close> returns a non-empty minimizer list, the CSS minimizer
  followed by the JS minimizer; in development the returned object has no minimizer
  field; in both, \<^verbatim>\<open>splitChunks.chunks\<close> is \<^verbatim>\<open>'all'\<close>.
\<close>

theorem optimization_minimizer:
  "(isProd h \<longrightarrow>
      minimizer (optimization h) = Some [OptimizeCssAssetWebpackPlugin, TerserWebpackPlugin]
      \<and> (\<exists>ps. minimizer (optimization h) = Some ps \<and> ps \<noteq> []
            \<and> map class_of ps = [CSS_minimizer, JS_minimizer]))
   \<and> (isDev h \<longrightarrow> minimizer (optimization h) = None)
   \<and> chunks (splitChunks (optimization h)) = ''all''"
  by (simp add: optimization_unfolded isProd_def)

theorem optimization_minimizer_witness:
  "isProd (host_of None ''/app'')
   \<and> minimizer (optimization (host_of None ''/app''))
       = Some [OptimizeCssAssetWebpackPlugin, TerserWebpackPlugin]
   \<and> isDev (host_of (Some ''development'') ''/app'')
   \<and> minimizer (optimization (host_of (Some ''development'') ''/app'')) = None
   \<and> chunks (splitChunks (optimization (host_of (Some ''development'') ''/app''))) = ''all''"
  using optimization_minimizer [of "host_of None ''/app''"]
    optimization_minimizer [of "host_of (Some ''development'') ''/app''"]
  by (simp add: isProd_host_of isDev_host_of)

text \<open>
  C3. \<open>plugins\<close> returns the four base plugins in the order HTML generation,
  output-directory cleaning, static-file copying, style-sheet extraction, and the
  bundle-size visualizer as a fifth element exactly in production.
\<close>

theorem plugins_list:
  "plugins h =
     [HTMLWebpackPlugin
        \<lparr>template = ''./index.html'', minify = \<lparr>collapseWhitespace = isProd h\<rparr>\<rparr>,
      CleanWebpackPlugin,
      CopyWebpackPlugin
        [\<lparr>copy_from = path_resolve h (dirname h) ''src/favicon.ico'',
          copy_to = path_resolve h (dirname h) ''dist''\<rparr>],
      MiniCssExtractPlugin (filename h ''css'')]
     @ (if isProd h then [BundleAnalyzerPlugin] else [])
   \<and> map class_of (plugins h) =
       [HTML_generation, Output_cleaning, Static_copying, Style_extraction]
       @ (if isProd h then [Bundle_visualizer] else [])
   \<and> (Bundle_visualizer \<in> set (map class_of (plugins h))) = isProd h
   \<and> (length (plugins h) = 5) = isProd h
   \<and> (length (plugins h) = 4) = isDev h"
  by (simp add: plugins_unfolded isProd_def)

text \<open>
  C4. One boolean, \<open>isDev\<close>, computed from \<^verbatim>\<open>NODE_ENV\<close> alone, controls everything in the
  configuration that depends on the environment: two hosts that agree on it (and on
  where the file lies) export the same configuration. In particular the minimizer list
  and \<^verbatim>\<open>collapseWhitespace\<close> are there only in production, \<^verbatim>\<open>devtool\<close> is
  \<^verbatim>\<open>'source-map'\<close> in development and the empty string otherwise, \<^verbatim>\<open>devServer.hot\<close> is the
  flag, and the bundle analyzer is among the plugins only in production.
\<close>

theorem environment_switch:
  assumes "isDev h1 = isDev h2"
    and "dirname h1 = dirname h2"
    and "path_resolve h1 = path_resolve h2"
  shows "module_exports h1 = module_exports h2
    \<and> isDev h1 = (NODE_ENV h1 = Some ''development'')
    \<and> minimizer (cfg_optimization (module_exports h1)) =
        (if isDev h1 then None
         else Some [OptimizeCssAssetWebpackPlugin, TerserWebpackPlugin])
    \<and> take 1 (cfg_plugins (module_exports h1)) =
        [HTMLWebpackPlugin
           \<lparr>template = ''./index.html'', minify = \<lparr>collapseWhitespace = (\<not> isDev h1)\<rparr>\<rparr>]
    \<and> cfg_devtool (module_exports h1) = (if isDev h1 then ''source-map'' else [])
    \<and> hot (cfg_devServer (module_exports h1)) = isDev h1
    \<and> (BundleAnalyzerPlugin \<in> set (cfg_plugins (module_exports h1))) = (\<not> isDev h1)"
proof -
  have same: "module_exports h1 = module_exports h2"
    using assms by (rule exports_flag_only)
  have parts: "cfg_optimization (module_exports h1) = optimization h1"
    "cfg_plugins (module_exports h1) = plugins h1"
    "cfg_devtool (module_exports h1) = (if isDev h1 then ''source-map'' else [])"
    "hot (cfg_devServer (module_exports h1)) = isDev h1"
    by (simp_all add: module_exports_def)
  show ?thesis
    by (rule conjI [OF same])
      (simp add: parts optimization_unfolded plugins_unfolded isProd_def isDev_def)
qed

theorem environment_switch_witness:
  "isDev (host_of (Some ''production'') ''/app'') = isDev (host_of None ''/app'')
   \<and> dirname (host_of (Some ''production'') ''/app'') = dirname (host_of None ''/app'')
   \<and> path_resolve (host_of (Some ''production'') ''/app'')
       = path_resolve (host_of None ''/app'')
   \<and> module_exports (host_of (Some ''production'') ''/app'')
       = module_exports (host_of None ''/app'')
   \<and> cfg_devtool (module_exports (host_of (Some ''production'') ''/app''))
       = (if isDev (host_of (Some ''production'') ''/app'') then ''source-map'' else [])"
proof -
  have flag: "isDev (host_of (Some ''production'') ''/app'') = isDev (host_of None ''/app'')"
    by (simp add: isDev_host_of)
  have dir: "dirname (host_of (Some ''production'') ''/app'') = dirname (host_of None ''/app'')"
    by (simp add: host_of_def)
  have res: "path_resolve (host_of (Some ''production'') ''/app'')
      = path_resolve (host_of None ''/app'')"
    by (simp add: host_of_def)
  show ?thesis
    using flag dir res environment_switch [OF flag dir res] by blast
qed

text \<open>
  C5, as amended. The entry object has the two bundles \<^verbatim>\<open>main\<close> and \<^verbatim>\<open>analytics\<close>;
  \<^verbatim>\<open>main\<close> maps to the list of the two source files \<^verbatim>\<open>@babel/polyfill\<close> and
  \<^verbatim>\<open>./index.jsx\<close>, and \<^verbatim>\<open>analytics\<close> maps to the single source file
  \<^verbatim>\<open>./analytics.ts\<close>, written as a string and not as a list.
\<close>

theorem entry_shapes:
  "map fst (cfg_entry (module_exports h)) = [''main'', ''analytics'']
   \<and> (map_of (cfg_entry (module_exports h)) k = Some v \<longrightarrow>
        ((k = ''main'' \<and> v = EntryFiles [''@babel/polyfill'', ''./index.jsx''])
         \<or> (k = ''analytics'' \<and> v = EntryFile ''./analytics.ts''))
        \<and> is_file_list v = (k = ''main''))"
  by (auto simp add: module_exports_def split: if_splits)

theorem entry_shapes_witness:
  "map_of (cfg_entry (module_exports (host_of None ''/app''))) ''main''
     = Some (EntryFiles [''@babel/polyfill'', ''./index.jsx''])
   \<and> is_file_list (EntryFiles [''@babel/polyfill'', ''./index.jsx''])
   \<and> map_of (cfg_entry (module_exports (host_of (Some ''development'') ''/app'')))
       ''analytics''
     = Some (EntryFile ''./analytics.ts'')
   \<and> map fst (cfg_entry (module_exports (host_of None ''/app''))) = [''main'', ''analytics'']"
  using entry_shapes [of "host_of None ''/app''" "''main''"
      "EntryFiles [''@babel/polyfill'', ''./index.jsx'']"]
    entry_shapes [of "host_of (Some ''development'') ''/app''" "''analytics''"
      "EntryFile ''./analytics.ts''"]
  by (simp add: module_exports_def)

text \<open>
  C5, as stated ("for every key of the entry object, the associated value is a list"),
  fails at the key \<^verbatim>\<open>analytics\<close>, whose value is a string.
\<close>

theorem entry_analytics_not_a_list:
  "map_of (cfg_entry (module_exports (host_of None ''/app''))) ''analytics''
     = Some (EntryFile ''./analytics.ts'')
   \<and> \<not> is_file_list (EntryFile ''./analytics.ts'')"
  by (simp add: module_exports_def)

text \<open>
  C6. The rules for \<^verbatim>\<open>.js\<close>, \<^verbatim>\<open>.ts\<close> and \<^verbatim>\<open>.jsx\<close> files all run \<^verbatim>\<open>babel-loader\<close> with
  the preset \<^verbatim>\<open>@babel/preset-env\<close> first and the class-properties plugin; the \<^verbatim>\<open>.ts\<close>
  rule appends \<^verbatim>\<open>@babel/preset-typescript\<close>, the \<^verbatim>\<open>.jsx\<close> rule \<^verbatim>\<open>@babel/preset-react\<close>,
  and the \<^verbatim>\<open>.js\<close> rule no preset. (The \<^verbatim>\<open>.js\<close> chain goes on with \<^verbatim>\<open>eslint-loader\<close> in
  development.)
\<close>

theorem script_rules:
  "rule_for (Cat [Lit ''.js'', Eol]) (module_exports h) =
     Some \<lparr>rule_test = Cat [Lit ''.js'', Eol],
           rule_exclude = Some (Lit ''node_modules''),
           rule_use =
             Some (LoaderObject (Named ''babel-loader'')
                     (BabelOptions
                        \<lparr>babel_presets = [''@babel/preset-env''],
                         babel_plugins = [''@babel/plugin-proposal-class-properties'']\<rparr>)
                   # (if isDev h then [LoaderName ''eslint-loader''] else [])),
           rule_loader = None\<rparr>
   \<and> rule_for (Cat [Lit ''.ts'', Eol]) (module_exports h) =
     Some \<lparr>rule_test = Cat [Lit ''.ts'', Eol],
           rule_exclude = Some (Lit ''node_modules''),
           rule_use = None,
           rule_loader =
             Some (LoaderObject (Named ''babel-loader'')
                     (BabelOptions
                        \<lparr>babel_presets = [''@babel/preset-env'', ''@babel/preset-typescript''],
                         babel_plugins = [''@babel/plugin-proposal-class-properties'']\<rparr>))\<rparr>
   \<and> rule_for (Cat [Lit ''.jsx'', Eol]) (module_exports h) =
     Some \<lparr>rule_test = Cat [Lit ''.jsx'', Eol],
           rule_exclude = Some (Lit ''node_modules''),
           rule_use = None,
           rule_loader =
             Some (LoaderObject (Named ''babel-loader'')
                     (BabelOptions
                        \<lparr>babel_presets = [''@babel/preset-env'', ''@babel/preset-react''],
                         babel_plugins = [''@babel/plugin-proposal-class-properties'']\<rparr>))\<rparr>
   \<and> babelOptions h preset =
     \<lparr>babel_presets =
        ''@babel/preset-env'' # (case truthy preset of Some p \<Rightarrow> [p] | None \<Rightarrow> []),
      babel_plugins = [''@babel/plugin-proposal-class-properties'']\<rparr>"
proof (intro conjI)
  show "babelOptions h preset =
     \<lparr>babel_presets =
        ''@babel/preset-env'' # (case truthy preset of Some p \<Rightarrow> [p] | None \<Rightarrow> []),
      babel_plugins = [''@babel/plugin-proposal-class-properties'']\<rparr>"
    by (rule babelOptions_unfolded)
qed (simp_all add: rule_for_def module_exports_def use_rule_def jsLoaders_def
    babelOptions_unfolded)

text \<open>
  C7. The dev-server options are the port 4200, whatever the environment, and the flag
  \<^verbatim>\<open>hot\<close>, which is true exactly when \<open>isDev\<close> holds.
\<close>

theorem dev_server_options:
  "cfg_devServer (module_exports h) = \<lparr>port = 4200, hot = isDev h\<rparr>
   \<and> port (cfg_devServer (module_exports h)) = 4200
   \<and> hot (cfg_devServer (module_exports h)) = isDev h"
  by (simp add: module_exports_def)

text \<open>
  C8. The helpers \<open>filename\<close>, \<open>cssLoaders\<close>, \<open>babelOptions\<close>, \<open>jsLoaders\<close> and
  \<open>optimization\<close> are pure: on the same arguments, under two hosts that agree on the
  environment flag and may differ in everything else, each returns the same value.
  (Each call builds its result from fresh objects, so "the same" is equality of the
  values, not identity of the objects.)
\<close>

theorem helpers_pure:
  "isDev h1 = isDev h2 \<Longrightarrow>
     filename h1 ext = filename h2 ext
     \<and> cssLoaders h1 extra = cssLoaders h2 extra
     \<and> babelOptions h1 preset = babelOptions h2 preset
     \<and> jsLoaders h1 = jsLoaders h2
     \<and> optimization h1 = optimization h2"
  by (intro conjI helpers_flag_only)

theorem helpers_pure_witness:
  "isDev \<lparr>NODE_ENV = Some ''production'', dirname = ''/a'', path_resolve = join_path\<rparr>
     = isDev \<lparr>NODE_ENV = None, dirname = ''/b'', path_resolve = (\<lambda>d p. p)\<rparr>
   \<and> filename \<lparr>NODE_ENV = Some ''production'', dirname = ''/a'', path_resolve = join_path\<rparr>
       ''js''
     = filename \<lparr>NODE_ENV = None, dirname = ''/b'', path_resolve = (\<lambda>d p. p)\<rparr> ''js''
   \<and> cssLoaders \<lparr>NODE_ENV = Some ''production'', dirname = ''/a'', path_resolve = join_path\<rparr>
       (Some ''less-loader'')
     = cssLoaders \<lparr>NODE_ENV = None, dirname = ''/b'', path_resolve = (\<lambda>d p. p)\<rparr>
       (Some ''less-loader'')
   \<and> jsLoaders \<lparr>NODE_ENV = Some ''production'', dirname = ''/a'', path_resolve = join_path\<rparr>
     = jsLoaders \<lparr>NODE_ENV = None, dirname = ''/b'', path_resolve = (\<lambda>d p. p)\<rparr>
   \<and> optimization \<lparr>NODE_ENV = Some ''production'', dirname = ''/a'', path_resolve = join_path\<rparr>
     = optimization \<lparr>NODE_ENV = None, dirname = ''/b'', path_resolve = (\<lambda>d p. p)\<rparr>"
proof -
  have flag:
    "isDev \<lparr>NODE_ENV = Some ''production'', dirname = ''/a'', path_resolve = join_path\<rparr>
       = isDev \<lparr>NODE_ENV = None, dirname = ''/b'', path_resolve = (\<lambda>d p. p)\<rparr>"
    by (simp add: isDev_def)
  show ?thesis
    using flag helpers_pure [OF flag] by blast
qed

text \<open>
  C9. Whatever \<^verbatim>\<open>NODE_ENV\<close> is, unset included, exactly one of \<open>isDev\<close> and \<open>isProd\<close>
  holds, and every value but the string \<^verbatim>\<open>development\<close> itself (\<^verbatim>\<open>production\<close>, the empty
  string, no value at all) gives the production configuration: the one exported under
  \<^verbatim>\<open>NODE_ENV=production\<close>, written out here in full, with the hashed filename templates,
  the two minimizers, \<^verbatim>\<open>collapseWhitespace\<close> on, the bundle analyzer as fifth plugin, no
  source map, no hot reload, no \<^verbatim>\<open>hmr\<close> and no \<^verbatim>\<open>eslint-loader\<close>.
\<close>

theorem production_by_default:
  "(isDev h \<or> isProd h) \<and> \<not> (isDev h \<and> isProd h)
   \<and> isProd h = (\<not> isDev h)
   \<and> isDev h = (NODE_ENV h = Some ''development'')
   \<and> (NODE_ENV h \<noteq> Some ''development'' \<longrightarrow>
        isProd h
        \<and> module_exports h = module_exports (h\<lparr>NODE_ENV := Some ''production''\<rparr>)
        \<and> module_exports h =
           \<lparr>cfg_context = path_resolve h (dirname h) ''src'',
            cfg_mode = ''development'',
            cfg_entry =
              [(''main'', EntryFiles [''@babel/polyfill'', ''./index.jsx'']),
               (''analytics'', EntryFile ''./analytics.ts'')],
            cfg_output =
              \<lparr>out_filename = ''[name].[hash].js'',
               out_path = path_resolve h (dirname h) ''dist''\<rparr>,
            cfg_resolve =
              \<lparr>extensions = [''.js'', ''.json'', ''.png''],
               aliases =
                 [(''@models'', path_resolve h (dirname h) ''src/models''),
                  (''@'', path_resolve h (dirname h) ''src'')]\<rparr>,
            cfg_optimization =
              \<lparr>splitChunks = \<lparr>chunks = ''all''\<rparr>,
               minimizer = Some [OptimizeCssAssetWebpackPlugin, TerserWebpackPlugin]\<rparr>,
            cfg_devServer = \<lparr>port = 4200, hot = False\<rparr>,
            cfg_devtool = [],
            cfg_plugins =
              [HTMLWebpackPlugin
                 \<lparr>template = ''./index.html'', minify = \<lparr>collapseWhitespace = True\<rparr>\<rparr>,
               CleanWebpackPlugin,
               CopyWebpackPlugin
                 [\<lparr>copy_from = path_resolve h (dirname h) ''src/favicon.ico'',
                   copy_to = path_resolve h (dirname h) ''dist''\<rparr>],
               MiniCssExtractPlugin ''[name].[hash].css'',
               BundleAnalyzerPlugin],
            cfg_module =
              \<lparr>rules =
                 [use_rule (Cat [Lit ''.css'', Eol])
                    [LoaderObject MiniCssExtractPlugin_loader
                       (ExtractOptions \<lparr>hmr = False, reloadAll = True\<rparr>),
                     LoaderName ''css-loader''],
                  use_rule (Cat [Lit ''.less'', Eol])
                    [LoaderObject MiniCssExtractPlugin_loader
                       (ExtractOptions \<lparr>hmr = False, reloadAll = True\<rparr>),
                     LoaderName ''css-loader'',
                     LoaderName ''less-loader''],
                  use_rule (Cat [Lit ''.s'', Cls ''ac'', Lit ''ss'', Eol])
                    [LoaderObject MiniCssExtractPlugin_loader
                       (ExtractOptions \<lparr>hmr = False, reloadAll = True\<rparr>),
                     LoaderName ''css-loader'',
                     LoaderName ''sass-loader''],
                  use_rule
                    (Cat [Lit ''.'',
                       Alt [Lit ''png'', Lit ''jpg'', Lit ''svg'', Lit ''gif''], Eol])
                    [LoaderName ''file-loader''],
                  use_rule
                    (Cat [Lit ''.'',
                       Alt [Lit ''ttf'', Lit ''woff'', Lit ''woff2'', Lit ''eot''], Eol])
                    [LoaderName ''file-loader''],
                  use_rule (Cat [Lit ''.xml'', Eol]) [LoaderName ''xml-loader''],
                  use_rule (Cat [Lit ''.csv'', Eol]) [LoaderName ''csv-loader''],
                  \<lparr>rule_test = Cat [Lit ''.js'', Eol],
                   rule_exclude = Some (Lit ''node_modules''),
                   rule_use =
                     Some [LoaderObject (Named ''babel-loader'')
                       (BabelOptions
                          \<lparr>babel_presets = [''@babel/preset-env''],
                           babel_plugins = [''@babel/plugin-proposal-class-properties'']\<rparr>)],
                   rule_loader = None\<rparr>,
                  \<lparr>rule_test = Cat [Lit ''.ts'', Eol],
                   rule_exclude = Some (Lit ''node_modules''),
                   rule_use = None,
                   rule_loader =
                     Some (LoaderObject (Named ''babel-loader'')
                       (BabelOptions
                          \<lparr>babel_presets =
                             [''@babel/preset-env'', ''@babel/preset-typescript''],
                           babel_plugins =
                             [''@babel/plugin-proposal-class-properties'']\<rparr>))\<rparr>,
                  \<lparr>rule_test = Cat [Lit ''.jsx'', Eol],
                   rule_exclude = Some (Lit ''node_modules''),
                   rule_use = None,
                   rule_loader =
                     Some (LoaderObject (Named ''babel-loader'')
                       (BabelOptions
                          \<lparr>babel_presets = [''@babel/preset-env'', ''@babel/preset-react''],
                           babel_plugins =
                             [''@babel/plugin-proposal-class-properties'']\<rparr>))\<rparr>]\<rparr>\<rparr>
        \<and> minimizer (cfg_optimization (module_exports h))
            = Some [OptimizeCssAssetWebpackPlugin, TerserWebpackPlugin]
        \<and> out_filename (cfg_output (module_exports h)) = ''[name].[hash].js''
        \<and> cfg_devtool (module_exports h) = []
        \<and> \<not> hot (cfg_devServer (module_exports h))
        \<and> BundleAnalyzerPlugin \<in> set (cfg_plugins (module_exports h))
        \<and> cfg_devtool (module_exports h) \<noteq> ''source-map'')
   \<and> isProd (h\<lparr>NODE_ENV := Some ''production''\<rparr>)
   \<and> isProd (h\<lparr>NODE_ENV := Some []\<rparr>)
   \<and> isProd (h\<lparr>NODE_ENV := None\<rparr>)"
proof (cases "NODE_ENV h = Some ''development''")
  case True
  then show ?thesis by (simp add: isProd_def isDev_def)
next
  case False
  have same: "module_exports h = module_exports (h\<lparr>NODE_ENV := Some ''production''\<rparr>)"
    using False by (intro exports_flag_only) (simp_all add: isDev_def)
  have flags: "\<not> isDev h" "isProd h"
    using False by (simp_all add: isProd_def isDev_def)
  have content: "module_exports h = \<lparr>cfg_context = path_resolve h (dirname h) ''src'',
            cfg_mode = ''development'',
            cfg_entry =
              [(''main'', EntryFiles [''@babel/polyfill'', ''./index.jsx'']),
               (''analytics'', EntryFile ''./analytics.ts'')],
            cfg_output =
              \<lparr>out_filename = ''[name].[hash].js'',
               out_path = path_resolve h (dirname h) ''dist''\<rparr>,
            cfg_resolve =
              \<lparr>extensions = [''.js'', ''.json'', ''.png''],
               aliases =
                 [(''@models'', path_resolve h (dirname h) ''src/models''),
                  (''@'', path_resolve h (dirname h) ''src'')]\<rparr>,
            cfg_optimization =
              \<lparr>splitChunks = \<lparr>chunks = ''all''\<rparr>,
               minimizer = Some [OptimizeCssAssetWebpackPlugin, TerserWebpackPlugin]\<rparr>,
            cfg_devServer = \<lparr>port = 4200, hot = False\<rparr>,
            cfg_devtool = [],
            cfg_plugins =
              [HTMLWebpackPlugin
                 \<lparr>template = ''./index.html'', minify = \<lparr>collapseWhitespace = True\<rparr>\<rparr>,
               CleanWebpackPlugin,
               CopyWebpackPlugin
                 [\<lparr>copy_from = path_resolve h (dirname h) ''src/favicon.ico'',
                   copy_to = path_resolve h (dirname h) ''dist''\<rparr>],
               MiniCssExtractPlugin ''[name].[hash].css'',
               BundleAnalyzerPlugin],
            cfg_module =
              \<lparr>rules =
                 [use_rule (Cat [Lit ''.css'', Eol])
                    [LoaderObject MiniCssExtractPlugin_loader
                       (ExtractOptions \<lparr>hmr = False, reloadAll = True\<rparr>),
                     LoaderName ''css-loader''],
                  use_rule (Cat [Lit ''.less'', Eol])
                    [LoaderObject MiniCssExtractPlugin_loader
                       (ExtractOptions \<lparr>hmr = False, reloadAll = True\<rparr>),
                     LoaderName ''css-loader'',
                     LoaderName ''less-loader''],
                  use_rule (Cat [Lit ''.s'', Cls ''ac'', Lit ''ss'', Eol])
                    [LoaderObject MiniCssExtractPlugin_loader
                       (ExtractOptions \<lparr>hmr = False, reloadAll = True\<rparr>),
                     LoaderName ''css-loader'',
                     LoaderName ''sass-loader''],
                  use_rule
                    (Cat [Lit ''.'',
                       Alt [Lit ''png'', Lit ''jpg'', Lit ''svg'', Lit ''gif''], Eol])
                    [LoaderName ''file-loader''],
                  use_rule
                    (Cat [Lit ''.'',
                       Alt [Lit ''ttf'', Lit ''woff'', Lit ''woff2'', Lit ''eot''], Eol])
                    [LoaderName ''file-loader''],
                  use_rule (Cat [Lit ''.xml'', Eol]) [LoaderName ''xml-loader''],
                  use_rule (Cat [Lit ''.csv'', Eol]) [LoaderName ''csv-loader''],
                  \<lparr>rule_test = Cat [Lit ''.js'', Eol],
                   rule_exclude = Some (Lit ''node_modules''),
                   rule_use =
                     Some [LoaderObject (Named ''babel-loader'')
                       (BabelOptions
                          \<lparr>babel_presets = [''@babel/preset-env''],
                           babel_plugins = [''@babel/plugin-proposal-class-properties'']\<rparr>)],
                   rule_loader = None\<rparr>,
                  \<lparr>rule_test = Cat [Lit ''.ts'', Eol],
                   rule_exclude = Some (Lit ''node_modules''),
                   rule_use = None,
                   rule_loader =
                     Some (LoaderObject (Named ''babel-loader'')
                       (BabelOptions
                          \<lparr>babel_presets =
                             [''@babel/preset-env'', ''@babel/preset-typescript''],
                           babel_plugins =
                             [''@babel/plugin-proposal-class-properties'']\<rparr>))\<rparr>,
                  \<lparr>rule_test = Cat [Lit ''.jsx'', Eol],
                   rule_exclude = Some (Lit ''node_modules''),
                   rule_use = None,
                   rule_loader =
                     Some (LoaderObject (Named ''babel-loader'')
                       (BabelOptions
                          \<lparr>babel_presets = [''@babel/preset-env'', ''@babel/preset-react''],
                           babel_plugins =
                             [''@babel/plugin-proposal-class-properties'']\<rparr>))\<rparr>]\<rparr>\<rparr>"
    by (simp add: module_exports_def plugins_unfolded optimization_unfolded filename_def
        cssLoaders_def jsLoaders_def babelOptions_unfolded flags)
  have facets:
    "minimizer (cfg_optimization (module_exports h))
       = Some [OptimizeCssAssetWebpackPlugin, TerserWebpackPlugin]"
    "out_filename (cfg_output (module_exports h)) = ''[name].[hash].js''"
    "cfg_devtool (module_exports h) = []"
    "\<not> hot (cfg_devServer (module_exports h))"
    "BundleAnalyzerPlugin \<in> set (cfg_plugins (module_exports h))"
    "cfg_devtool (module_exports h) \<noteq> ''source-map''"
    by (simp_all add: module_exports_def plugins_unfolded optimization_unfolded filename_def
        flags)
  have others: "isProd (h\<lparr>NODE_ENV := Some ''production''\<rparr>)"
    "isProd (h\<lparr>NODE_ENV := Some []\<rparr>)" "isProd (h\<lparr>NODE_ENV := None\<rparr>)"
    "isDev h = (NODE_ENV h = Some ''development'')"
    by (simp_all add: isProd_def isDev_def)
  show ?thesis
    using flags same content facets others by blast
qed

theorem production_by_default_witness:
  "NODE_ENV (host_of (Some []) ''/app'') \<noteq> Some ''development''
   \<and> isProd (host_of (Some []) ''/app'')
   \<and> \<not> isDev (host_of (Some []) ''/app'')
   \<and> module_exports (host_of (Some []) ''/app'')
       = module_exports (host_of (Some ''production'') ''/app'')
   \<and> out_filename (cfg_output (module_exports (host_of (Some []) ''/app'')))
       = ''[name].[hash].js''
   \<and> minimizer (cfg_optimization (module_exports (host_of (Some []) ''/app'')))
       = Some [OptimizeCssAssetWebpackPlugin, TerserWebpackPlugin]
   \<and> NODE_ENV (host_of None ''/app'') \<noteq> Some ''development''
   \<and> isProd (host_of None ''/app'')
   \<and> module_exports (host_of None ''/app'')
       = module_exports (host_of (Some ''production'') ''/app'')
   \<and> cfg_devtool (module_exports (host_of None ''/app'')) = []
   \<and> \<not> hot (cfg_devServer (module_exports (host_of None ''/app'')))
   \<and> BundleAnalyzerPlugin \<in> set (cfg_plugins (module_exports (host_of None ''/app'')))"
proof -
  have empty: "NODE_ENV (host_of (Some []) ''/app'') \<noteq> Some ''development''"
    and unset: "NODE_ENV (host_of None ''/app'') \<noteq> Some ''development''"
    by (simp_all add: host_of_def)
  have upd: "(host_of (Some []) ''/app'')\<lparr>NODE_ENV := Some ''production''\<rparr>
      = host_of (Some ''production'') ''/app''"
    "(host_of None ''/app'')\<lparr>NODE_ENV := Some ''production''\<rparr>
      = host_of (Some ''production'') ''/app''"
    by (simp_all add: host_of_def)
  show ?thesis
    using empty unset
      production_by_default [of "host_of (Some []) ''/app''", unfolded upd]
      production_by_default [of "host_of None ''/app''", unfolded upd]
    by blast
qed

text \<open>
  C10. The field \<^verbatim>\<open>mode\<close> of the exported configuration is the string \<^verbatim>\<open>development\<close>
  for every host, hence for every value of \<^verbatim>\<open>NODE_ENV\<close>: the flag does not switch it.
\<close>

theorem mode_constant:
  "cfg_mode (module_exports h) = ''development''
   \<and> cfg_mode (module_exports (h\<lparr>NODE_ENV := env\<rparr>)) = ''development''"
  by (simp add: module_exports_def)

end
